theory Spec2Isabelle
  imports Main
begin

section \<open>The database sync queue (backend/app/database.py)\<close>

text \<open>
  Payloads are the dictionaries handed to \<^verbatim>\<open>json.dumps\<close>. A TEXT column that holds
  JSON is modelled by the value its text decodes to: \<open>Some v\<close> for text written by
  \<^verbatim>\<open>json.dumps\<close>, \<open>None\<close> for NULL or text \<^verbatim>\<open>json.loads\<close> rejects.
\<close>

datatype json =
    JNull
  | JBool bool
  | JInt int
  | JStr string
  | JArr "json list"
  | JObj "(string \<times> json) list"

text \<open>
  One row of the table \<^verbatim>\<open>sync_queue\<close>. \<open>status\<close> is a TEXT column, so it is a
  string here; \<open>created_at\<close> is the position of the row's timestamp in time order.
\<close>

record sync_row =
  row_id :: nat
  table_name :: string
  operation :: string
  record_id :: string
  data :: "json option"
  created_at :: nat
  retry_count :: int
  max_retries :: int
  status :: string

text \<open>
  The SQLite file: the rows of \<^verbatim>\<open>sync_queue\<close> in rowid order and the AUTOINCREMENT
  counter (the largest rowid ever handed out).
\<close>

record offline_db =
  sync_queue :: "sync_row list"
  seq :: nat

text \<open>The fields of \<^verbatim>\<open>DatabaseManager\<close> that the queue and the cache read.\<close>

record db_manager =
  is_offline_mode :: bool
  has_session_factory :: bool
  has_redis_client :: bool

datatype db_error =
    ConnectionError
  | RuntimeError
  | JSONDecodeError
  | SessionError
  | StorageError

text \<open>The three statements \<^verbatim>\<open>_process_sync_queue\<close> issues for a row.\<close>

datatype stmt = MarkSynced | BumpRetry | MarkFailed

text \<open>
  What the outside world does during one call: whether the SQLite connection and the
  SELECT work, whether the main-database session of a row's operation commits, whether
  each UPDATE of a row works, and whether the final commit works.
\<close>

record sync_env =
  connect_ok :: bool
  session_ok :: "sync_row \<Rightarrow> bool"
  stmt_ok :: "sync_row \<Rightarrow> stmt \<Rightarrow> bool"
  commit_ok :: bool

text \<open>
  The main database is seen through the statements sessions have executed against it.
\<close>

type_synonym remote_db = "(string \<times> string \<times> string) list"

text \<open>
  \<^verbatim>\<open>get_async_session\<close>: refuses in offline mode and without a session factory;
  otherwise runs the body, then commits.
\<close>

definition get_async_session ::
  "db_manager \<Rightarrow> bool \<Rightarrow> (remote_db \<Rightarrow> remote_db) \<Rightarrow> remote_db \<Rightarrow> db_error + remote_db" where
  "get_async_session m commits body remote =
     (if is_offline_mode m then Inl ConnectionError
      else if \<not> has_session_factory m then Inl RuntimeError
      else if commits then Inr (body remote)
      else Inl SessionError)"

text \<open>
  \<^verbatim>\<open>_execute_sync_operation\<close>: decodes the row's data, opens a session, and in each
  of the three branches does \<^verbatim>\<open>pass\<close>.
\<close>

definition execute_sync_operation ::
  "db_manager \<Rightarrow> sync_env \<Rightarrow> remote_db \<Rightarrow> sync_row \<Rightarrow> db_error + remote_db" where
  "execute_sync_operation m e remote row =
     (case data row of
        None \<Rightarrow> Inl JSONDecodeError
      | Some d \<Rightarrow>
          get_async_session m (session_ok e row)
            (\<lambda>r. if operation row = ''INSERT'' then r
                 else if operation row = ''UPDATE'' then r
                 else if operation row = ''DELETE'' then r
                 else r)
            remote)"

text \<open>\<^verbatim>\<open>UPDATE sync_queue SET status = ? WHERE id = ?\<close>\<close>

definition set_status :: "nat \<Rightarrow> string \<Rightarrow> sync_row list \<Rightarrow> sync_row list" where
  "set_status i s tbl = map (\<lambda>r. if row_id r = i then r\<lparr>status := s\<rparr> else r) tbl"

text \<open>\<^verbatim>\<open>UPDATE sync_queue SET retry_count = retry_count + 1 WHERE id = ?\<close>\<close>

definition bump_retry :: "nat \<Rightarrow> sync_row list \<Rightarrow> sync_row list" where
  "bump_retry i tbl =
     map (\<lambda>r. if row_id r = i then r\<lparr>retry_count := retry_count r + 1\<rparr> else r) tbl"

text \<open>
  The \<^verbatim>\<open>except\<close> branch of the loop body: count the retry, and mark the row failed
  when the fetched row's count plus one reaches its bound. A statement that raises here
  leaves the loop (\<open>None\<close>).
\<close>

definition on_sync_failure :: "sync_env \<Rightarrow> sync_row \<Rightarrow> sync_row list \<Rightarrow> sync_row list option" where
  "on_sync_failure e row tbl =
     (if \<not> stmt_ok e row BumpRetry then None
      else if retry_count row + 1 \<ge> max_retries row then
        (if \<not> stmt_ok e row MarkFailed then None
         else Some (set_status (row_id row) ''failed'' (bump_retry (row_id row) tbl)))
      else Some (bump_retry (row_id row) tbl))"

text \<open>
  The loop body for one fetched row. The UPDATE to 'synced' sits inside the inner
  \<^verbatim>\<open>try\<close>, so its failure is handled like a failed operation.
\<close>

definition process_row ::
  "db_manager \<Rightarrow> sync_env \<Rightarrow> sync_row \<Rightarrow> sync_row list \<times> remote_db
     \<Rightarrow> sync_row list option \<times> remote_db" where
  "process_row m e row st =
     (case execute_sync_operation m e (snd st) row of
        Inr remote' \<Rightarrow>
          (if stmt_ok e row MarkSynced
           then (Some (set_status (row_id row) ''synced'' (fst st)), remote')
           else (on_sync_failure e row (fst st), remote'))
      | Inl err \<Rightarrow> (on_sync_failure e row (fst st), snd st))"

fun process_rows ::
  "db_manager \<Rightarrow> sync_env \<Rightarrow> sync_row list \<Rightarrow> sync_row list \<times> remote_db
     \<Rightarrow> sync_row list option \<times> remote_db" where
  "process_rows m e [] st = (Some (fst st), snd st)"
| "process_rows m e (row # rows) st =
     (case process_row m e row st of
        (None, remote') \<Rightarrow> (None, remote')
      | (Some tbl', remote') \<Rightarrow> process_rows m e rows (tbl', remote'))"

text \<open>
  \<^verbatim>\<open>SELECT * FROM sync_queue WHERE status = 'pending' AND retry_count < max_retries
  ORDER BY created_at\<close>; rows with equal timestamps stay in rowid order.
\<close>

definition eligible :: "sync_row \<Rightarrow> bool" where
  "eligible r \<longleftrightarrow> status r = ''pending'' \<and> retry_count r < max_retries r"

definition select_pending :: "sync_row list \<Rightarrow> sync_row list" where
  "select_pending tbl = sort_key created_at (filter eligible tbl)"

text \<open>
  \<^verbatim>\<open>_process_sync_queue\<close>. It returns nothing and raises nothing: the outer handler
  logs whatever went wrong. The updates become durable only at \<^verbatim>\<open>conn.commit()\<close>; a
  call that leaves through the handler has committed none of them.
\<close>

definition process_sync_queue ::
  "db_manager \<Rightarrow> sync_env \<Rightarrow> offline_db \<times> remote_db \<Rightarrow> offline_db \<times> remote_db" where
  "process_sync_queue m e st =
     (if is_offline_mode m then st
      else if \<not> connect_ok e then st
      else
        (case process_rows m e (select_pending (sync_queue (fst st))) (sync_queue (fst st), snd st) of
           (None, remote') \<Rightarrow> (fst st, remote')
         | (Some tbl', remote') \<Rightarrow>
             (if commit_ok e then ((fst st)\<lparr>sync_queue := tbl'\<rparr>, remote')
              else (fst st, remote'))))"

text \<open>
  The INSERT of \<^verbatim>\<open>queue_sync_operation\<close>: the schema's defaults fill
  \<open>created_at\<close>, \<open>retry_count = 0\<close>, \<open>max_retries = 3\<close> and \<open>status = 'pending'\<close>.
\<close>

definition insert_sync_row ::
  "offline_db \<Rightarrow> nat \<Rightarrow> string \<Rightarrow> string \<Rightarrow> string \<Rightarrow> json \<Rightarrow> offline_db" where
  "insert_sync_row db now tn op rid d =
     db\<lparr>sync_queue := sync_queue db @
            [\<lparr>row_id = Suc (seq db), table_name = tn, operation = op, record_id = rid,
              data = Some d, created_at = now, retry_count = 0, max_retries = 3,
              status = ''pending''\<rparr>],
        seq := Suc (seq db)\<rparr>"

text \<open>
  \<^verbatim>\<open>queue_sync_operation\<close>: insert and commit, then an immediate dispatch when not in
  offline mode. \<open>insert_ok\<close> says whether the connection, INSERT and commit work; when
  they raise, the handler returns \<open>False\<close>.
\<close>

definition queue_sync_operation ::
  "db_manager \<Rightarrow> bool \<Rightarrow> sync_env \<Rightarrow> nat \<Rightarrow> offline_db \<times> remote_db
     \<Rightarrow> string \<Rightarrow> string \<Rightarrow> string \<Rightarrow> json \<Rightarrow> bool \<times> offline_db \<times> remote_db" where
  "queue_sync_operation m insert_ok e now st tn op rid d =
     (if \<not> insert_ok then (False, st)
      else
        (let st1 = (insert_sync_row (fst st) now tn op rid d, snd st) in
         if \<not> is_offline_mode m then (True, process_sync_queue m e st1)
         else (True, st1)))"

text \<open>
  \<^verbatim>\<open>_setup_offline_database\<close> at startup: \<^verbatim>\<open>CREATE TABLE IF NOT EXISTS\<close> creates an
  empty table in a new file and leaves an existing table as it is.
\<close>

definition setup_offline_database :: "offline_db option \<Rightarrow> offline_db" where
  "setup_offline_database f =
     (case f of None \<Rightarrow> \<lparr>sync_queue = [], seq = 0\<rparr> | Some db \<Rightarrow> db)"

text \<open>
  The states of the SQLite file that the engine can produce: a new file, then any number
  of enqueue calls, dispatch calls and restarts.
\<close>

inductive reachable :: "offline_db \<Rightarrow> bool" where
  fresh: "reachable (setup_offline_database None)"
| restart: "reachable db \<Longrightarrow> reachable (setup_offline_database (Some db))"
| enqueue: "reachable db \<Longrightarrow>
     reachable (fst (snd (queue_sync_operation m ok e now (db, remote) tn op rid d)))"
| dispatch: "reachable db \<Longrightarrow> reachable (fst (process_sync_queue m e (db, remote)))"


subsection \<open>What one dispatch call does to one row\<close>

text \<open>
  The operation of a row succeeds when its data decodes and the session opens and commits.
\<close>

definition exec_succeeds :: "db_manager \<Rightarrow> sync_env \<Rightarrow> sync_row \<Rightarrow> bool" where
  "exec_succeeds m e row \<longleftrightarrow>
     data row \<noteq> None \<and> \<not> is_offline_mode m \<and> has_session_factory m \<and> session_ok e row"

text \<open>
  The row as the loop body leaves it, \<open>None\<close> when one of its statements raised. The
  lemmas below show that the loop of \<open>process_rows\<close>, which updates by id, computes
  exactly this for every fetched row once ids are distinct.
\<close>

definition row_result :: "db_manager \<Rightarrow> sync_env \<Rightarrow> sync_row \<Rightarrow> sync_row option" where
  "row_result m e row =
     (if exec_succeeds m e row \<and> stmt_ok e row MarkSynced then Some (row\<lparr>status := ''synced''\<rparr>)
      else if \<not> stmt_ok e row BumpRetry then None
      else if retry_count row + 1 \<ge> max_retries row then
        (if stmt_ok e row MarkFailed
         then Some (row\<lparr>retry_count := retry_count row + 1, status := ''failed''\<rparr>)
         else None)
      else Some (row\<lparr>retry_count := retry_count row + 1\<rparr>))"

definition tick_row :: "db_manager \<Rightarrow> sync_env \<Rightarrow> sync_row \<Rightarrow> sync_row" where
  "tick_row m e r = (if eligible r then the (row_result m e r) else r)"

definition tick_commits :: "db_manager \<Rightarrow> sync_env \<Rightarrow> sync_row list \<Rightarrow> bool" where
  "tick_commits m e tbl \<longleftrightarrow>
     \<not> is_offline_mode m \<and> connect_ok e \<and> commit_ok e \<and>
     (\<forall>r\<in>set tbl. eligible r \<longrightarrow> row_result m e r \<noteq> None)"

text \<open>The local store works throughout a call.\<close>

definition storage_healthy :: "sync_env \<Rightarrow> bool" where
  "storage_healthy e \<longleftrightarrow> connect_ok e \<and> commit_ok e \<and> (\<forall>r s. stmt_ok e r s)"

text \<open>What holds of every row the engine has written.\<close>

definition row_ok :: "sync_row \<Rightarrow> bool" where
  "row_ok r \<longleftrightarrow>
     data r \<noteq> None \<and> max_retries r = 3 \<and> 0 \<le> retry_count r \<and>
     (status r = ''pending'' \<and> retry_count r < max_retries r \<or>
      status r = ''synced'' \<and> retry_count r < max_retries r \<or>
      status r = ''failed'' \<and> retry_count r = max_retries r)"

definition db_ok :: "offline_db \<Rightarrow> bool" where
  "db_ok db \<longleftrightarrow>
     distinct (map row_id (sync_queue db)) \<and>
     (\<forall>r\<in>set (sync_queue db). row_id r \<le> seq db \<and> row_ok r)"

definition terminal :: "sync_row \<Rightarrow> bool" where
  "terminal r \<longleftrightarrow> status r = ''synced'' \<or> status r = ''failed''"


text \<open>The engine operations on the SQLite file, as one step relation.\<close>

inductive engine_step :: "offline_db \<Rightarrow> offline_db \<Rightarrow> bool" where
  step_restart: "engine_step db (setup_offline_database (Some db))"
| step_enqueue:
    "engine_step db (fst (snd (queue_sync_operation m ok e now (db, remote) tn op rid d)))"
| step_dispatch: "engine_step db (fst (process_sync_queue m e (db, remote)))"

subsection \<open>The ordering the specification asks of a batch\<close>


section \<open>Offline analytics events (backend/app/api/analytics.py)\<close>

record analytics_event =
  ev_id :: nat
  ev_type :: string
  ev_user_id :: string
  ev_session_id :: string
  ev_timestamp :: nat
  ev_properties :: "json option"
  ev_metadata :: "json option"
  ev_synced :: bool



text \<open>\<^verbatim>\<open>mark_events_synced\<close>: \<^verbatim>\<open>UPDATE ... SET synced = TRUE WHERE id IN (...)\<close>\<close>

definition mark_events_synced ::
  "bool \<Rightarrow> nat list \<Rightarrow> analytics_event list \<Rightarrow> bool \<times> analytics_event list" where
  "mark_events_synced store_ok event_ids events =
     (if \<not> store_ok then (False, events)
      else (True, map (\<lambda>ev. if ev_id ev \<in> set event_ids then ev\<lparr>ev_synced := True\<rparr> else ev) events))"

section \<open>The cache (backend/app/database.py)\<close>

text \<open>
  The Redis cache holds a value with its time to live, the table \<^verbatim>\<open>app_cache\<close> a value
  with its expiry time.
\<close>

record cache_state =
  redis :: "string \<rightharpoonup> json \<times> int"
  app_cache :: "string \<rightharpoonup> json \<times> int"

text \<open>\<^verbatim>\<open>_offline_cache_set\<close>: \<^verbatim>\<open>INSERT OR REPLACE\<close>; any exception gives \<open>False\<close>.\<close>

definition offline_cache_set ::
  "bool \<Rightarrow> int \<Rightarrow> cache_state \<Rightarrow> string \<Rightarrow> json \<Rightarrow> int \<Rightarrow> bool \<times> cache_state" where
  "offline_cache_set store_ok now c key v ttl =
     (if store_ok then (True, c\<lparr>app_cache := (app_cache c)(key \<mapsto> (v, now + ttl))\<rparr>)
      else (False, c))"

text \<open>
  \<^verbatim>\<open>cache_set\<close>: with a Redis client, \<^verbatim>\<open>setex\<close> and return; without one, the offline
  cache. An exception of \<^verbatim>\<open>setex\<close> gives \<open>False\<close>.
\<close>

definition cache_set ::
  "db_manager \<Rightarrow> bool \<Rightarrow> bool \<Rightarrow> int \<Rightarrow> cache_state \<Rightarrow> string \<Rightarrow> json \<Rightarrow> int
     \<Rightarrow> bool \<times> cache_state" where
  "cache_set m redis_ok store_ok now c key v ttl =
     (if has_redis_client m then
        (if redis_ok then (True, c\<lparr>redis := (redis c)(key \<mapsto> (v, ttl))\<rparr>) else (False, c))
      else offline_cache_set store_ok now c key v ttl)"

section \<open>The offline post queue (backend/app/services/social_service.py)\<close>

text \<open>An item of \<^verbatim>\<open>post_queue.json\<close>; \<open>post\<close> is the dictionary \<^verbatim>\<open>post.to_dict()\<close>.\<close>

record queue_item =
  item_id :: string
  post :: json
  queued_at :: nat
  item_retry_count :: int
  item_max_retries :: int

text \<open>
  The queue is a dictionary from user id to the user's items. The file is \<open>None\<close> when
  it does not exist or does not hold JSON.
\<close>

type_synonym post_queue = "string \<rightharpoonup> queue_item list"

datatype social_exn =
    NameError string
  | SocialServiceError string
  | OtherError string


text \<open>\<^verbatim>\<open>_load_queue\<close>: the file's dictionary, and \<^verbatim>\<open>{}\<close> on a missing file or any exception.\<close>

definition load_queue :: "post_queue option \<Rightarrow> post_queue" where
  "load_queue f = (case f of None \<Rightarrow> Map.empty | Some q \<Rightarrow> q)"

text \<open>
  \<^verbatim>\<open>_save_queue\<close> opens the file for writing, which empties it, and then writes the
  dump. It can fail before the file is opened (the file keeps its content) or after (the
  file is left without JSON).
\<close>

datatype save_outcome = Saved | OpenFailed string | WriteFailed string

definition save_queue ::
  "save_outcome \<Rightarrow> post_queue option \<Rightarrow> post_queue \<Rightarrow> social_exn option \<times> post_queue option" where
  "save_queue w f q =
     (case w of
        Saved \<Rightarrow> (None, Some q)
      | OpenFailed msg \<Rightarrow> (Some (OtherError msg), f)
      | WriteFailed msg \<Rightarrow> (Some (OtherError msg), None))"

text \<open>
  \<^verbatim>\<open>queue_for_publishing\<close>: a new item under a new uuid, appended to the user's list;
  an exception is logged and raised again.
\<close>

definition queue_for_publishing ::
  "save_outcome \<Rightarrow> string \<Rightarrow> nat \<Rightarrow> post_queue option \<Rightarrow> string \<Rightarrow> json
     \<Rightarrow> (social_exn + string) \<times> post_queue option" where
  "queue_for_publishing w queue_id now f user p =
     (let queue = load_queue f;
          queue1 = (if queue user = None then queue(user \<mapsto> []) else queue);
          queue_item = \<lparr>item_id = queue_id, post = p, queued_at = now,
                        item_retry_count = 0, item_max_retries = 3\<rparr>;
          queue2 = queue1(user \<mapsto> the (queue1 user) @ [queue_item])
      in case save_queue w f queue2 of
           (None, f') \<Rightarrow> (Inr queue_id, f')
         | (Some ex, f') \<Rightarrow> (Inl ex, f'))"


text \<open>
  The local variables of \<^verbatim>\<open>process_offline_queue\<close>, the items visited so far as the
  loop has mutated them, the file, and the posts that reached a platform.
  \<open>updated_queue\<close> is the binding of that name: \<open>None\<close> while nothing is assigned to it.
\<close>

record loop_state =
  processed :: nat
  failed :: nat
  updated_queue :: "queue_item list option"
  visited :: "queue_item list"
  queue_file :: "post_queue option"
  published :: "queue_item list"















definition initial_state :: "post_queue option \<Rightarrow> loop_state" where
  "initial_state f =
     \<lparr>processed = 0, failed = 0, updated_queue = None, visited = [],
      queue_file = f, published = []\<rparr>"





section \<open>The generic offline manager (backend/app/utils.py)\<close>

record offline_action =
  oa_action :: string
  oa_data :: json
  oa_attempts :: int

text \<open>The in-memory deque and the table \<^verbatim>\<open>offline_queue\<close>.\<close>

record offline_manager =
  queue :: "(string \<times> json) list"
  offline_queue :: "offline_action list"

datatype action_outcome = ActionTrue | ActionFalse | ActionRaised

datatype utils_error = ActionError | StoreError

text \<open>
  \<^verbatim>\<open>_execute_action\<close> is a hook: the source's body is a placeholder that returns
  \<^verbatim>\<open>True\<close>, to be replaced by the application's calls. The environment gives the hook
  and says whether each kind of statement on the table works.
\<close>

record action_env =
  execute_action :: "string \<Rightarrow> json \<Rightarrow> action_outcome"
  oa_insert_ok :: bool
  oa_delete_ok :: bool
  oa_update_ok :: bool

definition execute_action_placeholder :: "string \<Rightarrow> json \<Rightarrow> action_outcome" where
  "execute_action_placeholder action d = ActionTrue"

text \<open>
  \<^verbatim>\<open>queue_action\<close>: append to the deque, then insert; an exception of the insert is
  logged. The call returns normally either way (\<open>None\<close>: nothing raised).
\<close>

definition queue_action ::
  "action_env \<Rightarrow> offline_manager \<Rightarrow> string \<Rightarrow> json \<Rightarrow> utils_error option \<times> offline_manager" where
  "queue_action env mgr action d =
     (let mgr1 = mgr\<lparr>queue := queue mgr @ [(action, d)]\<rparr> in
      if oa_insert_ok env
      then (None, mgr1\<lparr>offline_queue := offline_queue mgr1 @
                        [\<lparr>oa_action = action, oa_data = d, oa_attempts = 0\<rparr>]\<rparr>)
      else (None, mgr1))"




section \<open>Example inputs\<close>

definition online_manager :: db_manager where
  "online_manager = \<lparr>is_offline_mode = False, has_session_factory = True, has_redis_client = True\<rparr>"

definition no_redis_manager :: db_manager where
  "no_redis_manager = \<lparr>is_offline_mode = False, has_session_factory = True, has_redis_client = False\<rparr>"

definition remote_down :: sync_env where
  "remote_down = \<lparr>connect_ok = True, session_ok = (\<lambda>r. False), stmt_ok = (\<lambda>r s. True), commit_ok = True\<rparr>"

definition remote_up :: sync_env where
  "remote_up = \<lparr>connect_ok = True, session_ok = (\<lambda>r. True), stmt_ok = (\<lambda>r s. True), commit_ok = True\<rparr>"

definition profile_update :: json where
  "profile_update = JObj [(''name'', JStr ''Ada'')]"

text \<open>A new file after one enqueue whose immediate dispatch met a failing main database.\<close>

definition one_failed_attempt :: offline_db where
  "one_failed_attempt =
     fst (snd (queue_sync_operation online_manager True remote_down 7
                 (setup_offline_database None, []) ''users'' ''UPDATE'' ''42'' profile_update))"

definition attempted_row :: sync_row where
  "attempted_row =
     \<lparr>row_id = 1, table_name = ''users'', operation = ''UPDATE'', record_id = ''42'',
      data = Some profile_update, created_at = 7, retry_count = 1, max_retries = 3,
      status = ''pending''\<rparr>"




text \<open>A file in which a row was put into the status 'processing' by hand.\<close>

definition stuck_db :: offline_db where
  "stuck_db =
     \<lparr>sync_queue =
        [\<lparr>row_id = 1, table_name = ''users'', operation = ''UPDATE'', record_id = ''42'',
          data = Some profile_update, created_at = 7, retry_count = 0, max_retries = 3,
          status = ''processing''\<rparr>],
      seq = 1\<rparr>"

definition example_post :: json where
  "example_post = JObj [(''platform'', JStr ''twitter''), (''content'', JStr ''hello'')]"




definition empty_manager :: offline_manager where
  "empty_manager = \<lparr>queue = [], offline_queue = []\<rparr>"




definition table_down :: action_env where
  "table_down =
     \<lparr>execute_action = execute_action_placeholder, oa_insert_ok = False, oa_delete_ok = False,
      oa_update_ok = False\<rparr>"


definition empty_cache :: cache_state where
  "empty_cache = \<lparr>redis = Map.empty, app_cache = Map.empty\<rparr>"

text \<open>A new file after one enqueue whose immediate dispatch succeeded.\<close>

definition synced_at_once :: offline_db where
  "synced_at_once =
     fst (snd (queue_sync_operation online_manager True remote_up 7
                 (setup_offline_database None, []) ''users'' ''UPDATE'' ''42'' profile_update))"

definition synced_row :: sync_row where
  "synced_row =
     \<lparr>row_id = 1, table_name = ''users'', operation = ''UPDATE'', record_id = ''42'',
      data = Some profile_update, created_at = 7, retry_count = 0, max_retries = 3,
      status = ''synced''\<rparr>"

definition synced_event :: analytics_event where
  "synced_event =
     \<lparr>ev_id = 1, ev_type = ''login'', ev_user_id = ''u1'', ev_session_id = ''s1'',
      ev_timestamp = 5, ev_properties = Some JNull, ev_metadata = Some JNull, ev_synced = True\<rparr>"

section \<open>The loop of the sync queue, row by row\<close>

lemma execute_sync_operation_eq:
  "execute_sync_operation m e remote row =
     (if exec_succeeds m e row then Inr remote
      else Inl (if data row = None then JSONDecodeError
                else if is_offline_mode m then ConnectionError
                else if \<not> has_session_factory m then RuntimeError
                else SessionError))"
  by (simp add: execute_sync_operation_def get_async_session_def exec_succeeds_def
      split: option.splits)

lemma update_by_id:
  assumes "distinct (map row_id tbl)" "row \<in> set tbl"
  shows "map (\<lambda>r. if row_id r = row_id row then f r else r) tbl =
         map (\<lambda>r. if r = row then f row else r) tbl"
proof (rule map_cong[OF refl])
  fix r assume "r \<in> set tbl"
  with assms have "row_id r = row_id row \<longleftrightarrow> r = row"
    by (meson distinct_map inj_onD)
  then show "(if row_id r = row_id row then f r else r) = (if r = row then f row else r)"
    by auto
qed

lemma process_row_eq:
  assumes "distinct (map row_id tbl)" "row \<in> set tbl"
  shows "process_row m e row (tbl, remote) =
     (case row_result m e row of
        None \<Rightarrow> (None, remote)
      | Some r' \<Rightarrow> (Some (map (\<lambda>r. if r = row then r' else r) tbl), remote))"
proof -
  have s: "set_status (row_id row) s tbl = map (\<lambda>r. if r = row then row\<lparr>status := s\<rparr> else r) tbl" for s
    unfolding set_status_def using update_by_id[OF assms, of "\<lambda>r. r\<lparr>status := s\<rparr>"] .
  have b: "bump_retry (row_id row) tbl =
      map (\<lambda>r. if r = row then row\<lparr>retry_count := retry_count row + 1\<rparr> else r) tbl"
    unfolding bump_retry_def
    using update_by_id[OF assms, of "\<lambda>r. r\<lparr>retry_count := retry_count r + 1\<rparr>"] .
  have sb: "set_status (row_id row) s (bump_retry (row_id row) tbl) =
      map (\<lambda>r. if r = row then row\<lparr>retry_count := retry_count row + 1, status := s\<rparr> else r) tbl" for s
    unfolding set_status_def bump_retry_def map_map
    by (rule trans[OF _ update_by_id[OF assms, of "\<lambda>r. r\<lparr>retry_count := retry_count r + 1, status := s\<rparr>"]])
       (auto intro!: map_cong)
  show ?thesis
    by (simp add: process_row_def execute_sync_operation_eq row_result_def on_sync_failure_def s b sb[unfolded b])
qed

lemma row_result_id: "row_result m e r = Some r' \<Longrightarrow> row_id r' = row_id r"
  by (auto simp: row_result_def split: if_splits)

lemma process_rows_eq:
  assumes "distinct (map row_id tbl)" "distinct (map row_id rows)" "set rows \<subseteq> set tbl"
  shows "process_rows m e rows (tbl, remote) =
     (if \<forall>r\<in>set rows. row_result m e r \<noteq> None
      then Some (map (\<lambda>r. if r \<in> set rows then the (row_result m e r) else r) tbl)
      else None, remote)"
  using assms
proof (induction rows arbitrary: tbl)
  case Nil
  then show ?case by simp
next
  case (Cons row rows)
  have row_in: "row \<in> set tbl" using Cons.prems by simp
  note pr = process_row_eq[OF Cons.prems(1) row_in, of m e remote]
  show ?case
  proof (cases "row_result m e row")
    case None
    then show ?thesis using pr by auto
  next
    case (Some r')
    let ?tbl1 = "map (\<lambda>r. if r = row then r' else r) tbl"
    have id': "row_id r' = row_id row" using Some by (rule row_result_id)
    have ids: "map row_id ?tbl1 = map row_id tbl" using id' by (auto intro!: map_cong simp: comp_def)
    have notin: "row_id row \<notin> row_id ` set rows" using Cons.prems(2) by simp
    have d1: "distinct (map row_id ?tbl1)" using Cons.prems(1) by (simp only: ids)
    have d2: "distinct (map row_id rows)" using Cons.prems(2) by simp
    have sub: "set rows \<subseteq> set ?tbl1"
    proof
      fix x assume x: "x \<in> set rows"
      then have "x \<noteq> row" using notin by auto
      moreover have "x \<in> set tbl" using x Cons.prems(3) by auto
      ultimately show "x \<in> set ?tbl1" by force
    qed
    have r'notin: "r' \<notin> set rows" using notin id' by (metis imageI)
    have rownotin: "row \<notin> set rows" using notin by force
    have comp: "map (\<lambda>r. if r \<in> set rows then the (row_result m e r) else r) ?tbl1 =
        map (\<lambda>r. if r \<in> set (row # rows) then the (row_result m e r) else r) tbl"
      using r'notin rownotin Some by (auto intro!: map_cong)
    have "process_rows m e (row # rows) (tbl, remote) = process_rows m e rows (?tbl1, remote)"
      using pr Some by simp
    also have "\<dots> = (if \<forall>r\<in>set rows. row_result m e r \<noteq> None
      then Some (map (\<lambda>r. if r \<in> set rows then the (row_result m e r) else r) ?tbl1)
      else None, remote)"
      by (rule Cons.IH[OF d1 d2 sub])
    finally show ?thesis using Some comp by auto
  qed
qed

lemma select_pending_set: "set (select_pending tbl) = {r \<in> set tbl. eligible r}"
  by (auto simp: select_pending_def)

lemma select_pending_distinct:
  "distinct (map row_id tbl) \<Longrightarrow> distinct (map row_id (select_pending tbl))"
  by (auto simp: select_pending_def distinct_map inj_on_def)

lemma process_sync_queue_eq:
  assumes "distinct (map row_id (sync_queue db))"
  shows "process_sync_queue m e (db, remote) =
     (if tick_commits m e (sync_queue db)
      then db\<lparr>sync_queue := map (tick_row m e) (sync_queue db)\<rparr> else db, remote)"
proof -
  have "process_rows m e (select_pending (sync_queue db)) (sync_queue db, remote) =
     (if \<forall>r\<in>set (sync_queue db). eligible r \<longrightarrow> row_result m e r \<noteq> None
      then Some (map (tick_row m e) (sync_queue db)) else None, remote)"
    using process_rows_eq[OF assms select_pending_distinct[OF assms], of m e remote]
    by (auto simp: select_pending_set tick_row_def intro!: map_cong)
  then show ?thesis
    by (auto simp: process_sync_queue_def tick_commits_def)
qed

lemma row_result_ok:
  assumes "row_ok r" "eligible r" "row_result m e r = Some r'"
  shows "row_ok r'"
  using assms
  by (auto simp: row_ok_def eligible_def row_result_def split: if_splits)

lemma tick_row_id:
  "eligible r \<longrightarrow> row_result m e r \<noteq> None \<Longrightarrow> row_id (tick_row m e r) = row_id r"
  by (auto simp: tick_row_def dest: row_result_id)

lemma tick_row_ok:
  "row_ok r \<Longrightarrow> eligible r \<longrightarrow> row_result m e r \<noteq> None \<Longrightarrow> row_ok (tick_row m e r)"
  by (auto simp: tick_row_def dest: row_result_ok)

lemma process_sync_queue_ok:
  assumes "db_ok db"
  shows "db_ok (fst (process_sync_queue m e (db, remote)))"
proof -
  have d: "distinct (map row_id (sync_queue db))" using assms by (simp add: db_ok_def)
  show ?thesis
  proof (cases "tick_commits m e (sync_queue db)")
    case False
    then show ?thesis using assms by (simp add: process_sync_queue_eq[OF d])
  next
    case True
    then have nn: "\<forall>r\<in>set (sync_queue db). eligible r \<longrightarrow> row_result m e r \<noteq> None"
      by (simp add: tick_commits_def)
    have ids: "map row_id (map (tick_row m e) (sync_queue db)) = map row_id (sync_queue db)"
      using nn by (auto intro!: map_cong simp: tick_row_id)
    have "db_ok (db\<lparr>sync_queue := map (tick_row m e) (sync_queue db)\<rparr>)"
      unfolding db_ok_def
    proof (intro conjI ballI)
      have "distinct (map row_id (map (tick_row m e) (sync_queue db)))"
        using d by (simp only: ids)
      then show "distinct (map row_id (sync_queue (db\<lparr>sync_queue := map (tick_row m e) (sync_queue db)\<rparr>)))"
        by (simp del: map_map)
    next
      fix r assume "r \<in> set (sync_queue (db\<lparr>sync_queue := map (tick_row m e) (sync_queue db)\<rparr>))"
      then obtain r0 where r0: "r0 \<in> set (sync_queue db)" "r = tick_row m e r0" by auto
      then have "row_id r0 \<le> seq db" "row_ok r0" using assms by (auto simp: db_ok_def)
      then show "row_id r \<le> seq (db\<lparr>sync_queue := map (tick_row m e) (sync_queue db)\<rparr>)"
        and "row_ok r"
        using r0 nn by (auto simp: tick_row_id tick_row_ok)
    qed
    then show ?thesis using True by (simp add: process_sync_queue_eq[OF d])
  qed
qed

lemma insert_sync_row_ok:
  assumes "db_ok db"
  shows "db_ok (insert_sync_row db now tn op rid d)"
  using assms
  by (auto simp: db_ok_def insert_sync_row_def row_ok_def)

lemma queue_sync_operation_ok:
  assumes "db_ok db"
  shows "db_ok (fst (snd (queue_sync_operation m ok e now (db, remote) tn op rid d)))"
  using assms
  by (auto simp: queue_sync_operation_def Let_def insert_sync_row_ok process_sync_queue_ok)

lemma reachable_ok: "reachable db \<Longrightarrow> db_ok db"
proof (induction rule: reachable.induct)
  case fresh
  show ?case by (simp add: setup_offline_database_def db_ok_def)
next
  case (restart db)
  then show ?case by (simp add: setup_offline_database_def)
next
  case (enqueue db m ok e now remote tn op rid d)
  then show ?case by (simp add: queue_sync_operation_ok)
next
  case (dispatch db m e remote)
  then show ?case by (simp add: process_sync_queue_ok)
qed

section \<open>Facts about the sync queue\<close>


lemma dispatch_marks_synced:
  assumes "reachable db" "\<not> is_offline_mode m" "has_session_factory m"
    "\<forall>r. session_ok e r" "storage_healthy e"
  shows "process_sync_queue m e (db, remote) =
     (db\<lparr>sync_queue := map (\<lambda>r. if eligible r then r\<lparr>status := ''synced''\<rparr> else r) (sync_queue db)\<rparr>,
      remote)"
proof -
  have ok: "db_ok db" using assms(1) by (rule reachable_ok)
  then have d: "distinct (map row_id (sync_queue db))" by (simp add: db_ok_def)
  have res: "row_result m e r = Some (r\<lparr>status := ''synced''\<rparr>)" if "r \<in> set (sync_queue db)" for r
  proof -
    have "data r \<noteq> None" using ok that by (auto simp: db_ok_def row_ok_def)
    then show ?thesis using assms(2-5)
      by (simp add: row_result_def exec_succeeds_def storage_healthy_def)
  qed
  have tc: "tick_commits m e (sync_queue db)"
    using assms(2,5) res by (simp add: tick_commits_def storage_healthy_def)
  have "map (tick_row m e) (sync_queue db) =
        map (\<lambda>r. if eligible r then r\<lparr>status := ''synced''\<rparr> else r) (sync_queue db)"
    using res by (auto intro!: map_cong simp: tick_row_def)
  then show ?thesis using tc by (simp add: process_sync_queue_eq[OF d])
qed

lemma reachable_status:
  assumes "reachable db" "r \<in> set (sync_queue db)"
  shows "status r = ''pending'' \<or> status r = ''synced'' \<or> status r = ''failed''"
  using reachable_ok[OF assms(1)] assms(2)
  by (auto simp: db_ok_def row_ok_def)

lemma tick_row_terminal: "terminal r \<Longrightarrow> tick_row m e r = r"
  by (auto simp: tick_row_def terminal_def eligible_def)

lemma process_sync_queue_keeps:
  assumes "db_ok db" "r \<in> set (sync_queue db)" "terminal r"
  shows "r \<in> set (sync_queue (fst (process_sync_queue m e (db, remote))))"
proof -
  have d: "distinct (map row_id (sync_queue db))" using assms by (simp add: db_ok_def)
  have "tick_row m e r \<in> set (map (tick_row m e) (sync_queue db))" using assms(2) by simp
  then have "r \<in> set (map (tick_row m e) (sync_queue db))"
    by (simp only: tick_row_terminal[OF assms(3)])
  then show ?thesis using assms(2) by (simp add: process_sync_queue_eq[OF d])
qed

lemma engine_step_keeps:
  assumes "engine_step db db'" "db_ok db" "r \<in> set (sync_queue db)" "terminal r"
  shows "r \<in> set (sync_queue db') \<and> db_ok db'"
  using assms
proof (induction rule: engine_step.induct)
  case (step_restart db)
  then show ?case by (simp add: setup_offline_database_def)
next
  case (step_enqueue db m ok e now remote tn op rid d)
  let ?db1 = "insert_sync_row db now tn op rid d"
  have ok1: "db_ok ?db1"
    using step_enqueue by (simp add: insert_sync_row_ok)
  have in1: "r \<in> set (sync_queue ?db1)"
    using step_enqueue by (simp add: insert_sync_row_def)
  have in2: "r \<in> set (sync_queue (fst (process_sync_queue m e (?db1, remote))))"
    using ok1 in1 step_enqueue(3) by (rule process_sync_queue_keeps)
  have ok2: "db_ok (fst (process_sync_queue m e (?db1, remote)))"
    using ok1 by (rule process_sync_queue_ok)
  show ?case using step_enqueue(1,2) ok1 in1 in2 ok2
    by (simp add: queue_sync_operation_def Let_def)
next
  case (step_dispatch db m e remote)
  then show ?case by (simp add: process_sync_queue_keeps process_sync_queue_ok)
qed

lemma engine_steps_keep:
  assumes "engine_step\<^sup>*\<^sup>* db db'" "db_ok db" "r \<in> set (sync_queue db)" "terminal r"
  shows "r \<in> set (sync_queue db') \<and> db_ok db'"
  using assms
proof (induction rule: rtranclp_induct)
  case base
  then show ?case by simp
next
  case (step y z)
  then show ?case using engine_step_keeps by blast
qed









section \<open>Facts about the offline post queue\<close>

lemma initial_state_simps [simp]:
  "updated_queue (initial_state f) = None"
  "visited (initial_state f) = []"
  "queue_file (initial_state f) = f"
  "published (initial_state f) = []"
  "processed (initial_state f) = 0"
  "failed (initial_state f) = 0"
  by (simp_all add: initial_state_def)














section \<open>The claims\<close>

lemma reachable_one_failed_attempt: "reachable one_failed_attempt"
  unfolding one_failed_attempt_def by (rule reachable.enqueue[OF reachable.fresh])

lemma reachable_synced_at_once: "reachable synced_at_once"
  unfolding synced_at_once_def by (rule reachable.enqueue[OF reachable.fresh])







text \<open>
  C3 (amended). The engine never writes the status PROCESSING: in every state it can
  reach, each entry is 'pending', 'synced' or 'failed', so none is PROCESSING after a
  restart. Startup has no recovery step: it leaves the existing rows as they are.
\<close>

theorem no_processing_status_written:
  assumes "reachable db" and "r \<in> set (sync_queue db)"
  shows "status r \<noteq> ''processing'' \<and>
         (status r = ''pending'' \<or> status r = ''synced'' \<or> status r = ''failed'') \<and>
         setup_offline_database (Some db) = db"
  using reachable_status[OF assms] by (auto simp: setup_offline_database_def)

theorem no_processing_status_written_witness:
  "reachable one_failed_attempt \<and> attempted_row \<in> set (sync_queue one_failed_attempt) \<and>
   status attempted_row \<noteq> ''processing'' \<and>
   setup_offline_database (Some one_failed_attempt) = one_failed_attempt"
proof -
  have m: "attempted_row \<in> set (sync_queue one_failed_attempt)" by code_simp
  from no_processing_status_written[OF reachable_one_failed_attempt m]
  show ?thesis using reachable_one_failed_attempt m by blast
qed

text \<open>
  C3 as stated fails: a row put into PROCESSING by hand is still PROCESSING after the
  restart, and after the first dispatch too.
\<close>

theorem processing_row_survives_restart:
  "map status (sync_queue (setup_offline_database (Some stuck_db))) = [''processing''] \<and>
   map status (sync_queue (fst (process_sync_queue online_manager remote_up
                                  (setup_offline_database (Some stuck_db), [])))) = [''processing'']"
  by code_simp

text \<open>
  C4. Once an entry of the sync queue is 'synced' or 'failed', no later engine operation
  (restart, enqueue, dispatch) changes it: the same row, with its status, retry count and
  payload, is in every later state, and is the only row with its id. Marking analytics
  events synced leaves an event that is already synced as it is.
\<close>

theorem terminal_rows_never_change:
  assumes "reachable db" and "engine_step\<^sup>*\<^sup>* db db'"
    and "r \<in> set (sync_queue db)" and "terminal r"
    and "i < length events" and "ev_synced (events ! i)"
  shows "r \<in> set (sync_queue db') \<and> distinct (map row_id (sync_queue db')) \<and>
         snd (mark_events_synced ok ids events) ! i = events ! i"
proof -
  have "r \<in> set (sync_queue db') \<and> db_ok db'"
    using engine_steps_keep[OF assms(2) reachable_ok[OF assms(1)] assms(3,4)] .
  moreover have "snd (mark_events_synced ok ids events) ! i = events ! i"
    using assms(5,6) by (simp add: mark_events_synced_def)
  ultimately show ?thesis by (simp add: db_ok_def)
qed

theorem terminal_rows_never_change_witness:
  "reachable synced_at_once \<and>
   engine_step\<^sup>*\<^sup>* synced_at_once (fst (process_sync_queue online_manager remote_down (synced_at_once, []))) \<and>
   synced_row \<in> set (sync_queue synced_at_once) \<and> terminal synced_row \<and>
   synced_row \<in> set (sync_queue (fst (process_sync_queue online_manager remote_down (synced_at_once, [])))) \<and>
   snd (mark_events_synced True [1] [synced_event]) ! 0 = [synced_event] ! 0"
proof -
  have s: "engine_step\<^sup>*\<^sup>* synced_at_once
      (fst (process_sync_queue online_manager remote_down (synced_at_once, [])))"
    by (rule r_into_rtranclp) (rule engine_step.step_dispatch)
  have m: "synced_row \<in> set (sync_queue synced_at_once)" by code_simp
  have t: "terminal synced_row" by code_simp
  have i: "0 < length [synced_event]" by simp
  have e: "ev_synced ([synced_event] ! 0)" by code_simp
  from terminal_rows_never_change[OF reachable_synced_at_once s m t i e, of True "[1]"]
  show ?thesis using reachable_synced_at_once s m t by blast
qed




text \<open>
  C6 (amended). When the INSERT of \<^verbatim>\<open>queue_sync_operation\<close> fails, the call returns
  \<open>False\<close> and stores nothing; when the save of \<^verbatim>\<open>queue_for_publishing\<close> fails, the
  exception reaches the caller. A failure of the dispatch that \<^verbatim>\<open>queue_sync_operation\<close>
  starts does not change its result \<open>True\<close>, a dispatch that cannot open the store returns
  as if nothing had happened, and \<^verbatim>\<open>queue_action\<close> returns normally whether or not its
  insert worked.
\<close>

theorem enqueue_reports_insert_failure:
  "queue_sync_operation m False e now st tn op rid d = (False, st) \<and>
   fst (queue_sync_operation m True e now st tn op rid d) = True \<and>
   (w \<noteq> Saved \<longrightarrow> isl (fst (queue_for_publishing w qid t f user p))) \<and>
   (\<not> connect_ok e \<longrightarrow> process_sync_queue m e st = st) \<and>
   fst (queue_action env mgr action a) = None"
  by (cases w) (auto simp: queue_sync_operation_def Let_def queue_for_publishing_def save_queue_def
      process_sync_queue_def queue_action_def)

theorem enqueue_reports_insert_failure_witness:
  "queue_sync_operation online_manager False remote_up 7 (setup_offline_database None, [])
       ''users'' ''UPDATE'' ''42'' profile_update = (False, (setup_offline_database None, [])) \<and>
   isl (fst (queue_for_publishing (OpenFailed ''disk full'') ''id-1'' 1 None ''u1'' example_post))"
proof -
  have "OpenFailed ''disk full'' \<noteq> Saved" by simp
  with enqueue_reports_insert_failure[of online_manager remote_up 7 "(setup_offline_database None, [])"
      "''users''" "''UPDATE''" "''42''" profile_update "OpenFailed ''disk full''" "''id-1''" 1 None "''u1''" example_post]
  show ?thesis by blast
qed

text \<open>
  C6 as stated fails: with the table unreachable, \<^verbatim>\<open>queue_action\<close> returns normally and
  the action is in the deque only, not in the table.
\<close>

theorem queue_action_hides_insert_failure:
  "queue_action table_down empty_manager ''create_post'' JNull =
     (None, \<lparr>queue = [(''create_post'', JNull)], offline_queue = []\<rparr>)"
  by code_simp

text \<open>
  C7 (amended). \<^verbatim>\<open>cache_set\<close> writes one store only. With a Redis client it writes the
  remote cache, never the local store, and reports whether the remote write worked;
  without one it writes the local store.
\<close>

theorem cache_set_writes_one_store:
  "(has_redis_client m \<longrightarrow>
      app_cache (snd (cache_set m rok sok now c key v ttl)) = app_cache c \<and>
      fst (cache_set m rok sok now c key v ttl) = rok) \<and>
   (\<not> has_redis_client m \<and> sok \<longrightarrow>
      app_cache (snd (cache_set m rok sok now c key v ttl)) key = Some (v, now + ttl) \<and>
      redis (snd (cache_set m rok sok now c key v ttl)) = redis c \<and>
      fst (cache_set m rok sok now c key v ttl))"
  by (simp add: cache_set_def offline_cache_set_def)

theorem cache_set_writes_one_store_witness:
  "has_redis_client online_manager \<and>
   app_cache (snd (cache_set online_manager True True 0 empty_cache ''k'' (JInt 1) 60)) = app_cache empty_cache \<and>
   \<not> has_redis_client no_redis_manager \<and>
   app_cache (snd (cache_set no_redis_manager True True 0 empty_cache ''k'' (JInt 1) 60)) ''k'' = Some (JInt 1, 60)"
proof -
  have a: "has_redis_client online_manager" by (simp add: online_manager_def)
  have b: "\<not> has_redis_client no_redis_manager" by (simp add: no_redis_manager_def)
  from cache_set_writes_one_store[of online_manager True True 0 empty_cache "''k''" "JInt 1" 60] a
  have 1: "app_cache (snd (cache_set online_manager True True 0 empty_cache ''k'' (JInt 1) 60)) = app_cache empty_cache"
    by blast
  from cache_set_writes_one_store[of no_redis_manager True True 0 empty_cache "''k''" "JInt 1" 60] b
  have 2: "app_cache (snd (cache_set no_redis_manager True True 0 empty_cache ''k'' (JInt 1) 60)) ''k'' = Some (JInt 1, 60)"
    by simp
  show ?thesis using a b 1 2 by blast
qed

text \<open>
  C7 as stated fails: with a Redis client configured the local store is not written,
  whether the remote write works or raises.
\<close>

theorem cache_write_skips_local_store:
  "app_cache (snd (cache_set online_manager True True 0 empty_cache ''k'' (JInt 1) 60)) ''k'' = None \<and>
   cache_set online_manager False True 0 empty_cache ''k'' (JInt 1) 60 = (False, empty_cache)"
  by (simp add: cache_set_def online_manager_def empty_cache_def)





text \<open>
  C9. \<^verbatim>\<open>_execute_sync_operation\<close> leaves the main database as it was for every kind of
  operation. So a dispatch made online, with a session that opens and commits and a
  working local store, marks every pending entry with retry budget 'synced' and changes
  nothing in the main database.
\<close>

theorem synced_without_remote_operation:
  assumes "reachable db" and "\<not> is_offline_mode m" and "has_session_factory m"
    and "\<forall>r. session_ok e r" and "storage_healthy e"
  shows "process_sync_queue m e (db, remote) =
           (db\<lparr>sync_queue :=
                 map (\<lambda>r. if eligible r then r\<lparr>status := ''synced''\<rparr> else r) (sync_queue db)\<rparr>,
            remote) \<and>
         (execute_sync_operation m e remote row = Inr remote \<or>
          isl (execute_sync_operation m e remote row))"
  using dispatch_marks_synced[OF assms] by (simp add: execute_sync_operation_eq)

theorem synced_without_remote_operation_witness:
  "reachable one_failed_attempt \<and> storage_healthy remote_up \<and>
   process_sync_queue online_manager remote_up (one_failed_attempt, []) =
     (one_failed_attempt\<lparr>sync_queue :=
        map (\<lambda>r. if eligible r then r\<lparr>status := ''synced''\<rparr> else r) (sync_queue one_failed_attempt)\<rparr>,
      []) \<and>
   map status (sync_queue (fst (process_sync_queue online_manager remote_up (one_failed_attempt, [])))) =
     [''synced'']"
proof -
  have a: "\<not> is_offline_mode online_manager" "has_session_factory online_manager"
    by (simp_all add: online_manager_def)
  have s: "\<forall>r. session_ok remote_up r" by (simp add: remote_up_def)
  have h: "storage_healthy remote_up" by (simp add: storage_healthy_def remote_up_def)
  have v: "map status (sync_queue (fst (process_sync_queue online_manager remote_up (one_failed_attempt, [])))) =
     [''synced'']" by code_simp
  from synced_without_remote_operation[OF reachable_one_failed_attempt a s h, of "[]"]
  show ?thesis using reachable_one_failed_attempt h v by blast
qed



end
